theory Spec2Isabelle
  imports Complex_Main
begin

section \<open>Vectors\<close>

text \<open>
  The program computes with C++ \<open>double\<close>. Here a \<open>double\<close> is a real number; the values
  IEEE arithmetic has beside them (NaN, the infinities) are written out where the program
  can produce or pass them: a quotient by zero is \<open>None\<close>, and the upper end of a
  parameter interval is an \<open>xreal\<close>.
\<close>

text \<open>
  Modelled from the spec: \<open>vec3.h\<close> is not part of the sources at hand. A vector has
  three real components; \<open>point3\<close> and \<open>color\<close> are other names of the same type, and the
  operations are the componentwise ones the specification lists.
\<close>

datatype vec3 = Vec3 (vx: real) (vy: real) (vz: real)

type_synonym point3 = vec3
type_synonym color = vec3

definition vadd :: "vec3 \<Rightarrow> vec3 \<Rightarrow> vec3" where
  "vadd u v = Vec3 (vx u + vx v) (vy u + vy v) (vz u + vz v)"

definition vsub :: "vec3 \<Rightarrow> vec3 \<Rightarrow> vec3" where
  "vsub u v = Vec3 (vx u - vx v) (vy u - vy v) (vz u - vz v)"

definition smul :: "real \<Rightarrow> vec3 \<Rightarrow> vec3" where
  "smul k v = Vec3 (k * vx v) (k * vy v) (k * vz v)"

definition vmul :: "vec3 \<Rightarrow> vec3 \<Rightarrow> vec3" where
  "vmul u v = Vec3 (vx u * vx v) (vy u * vy v) (vz u * vz v)"

definition dot :: "vec3 \<Rightarrow> vec3 \<Rightarrow> real" where
  "dot u v = vx u * vx v + vy u * vy v + vz u * vz v"

definition length_squared :: "vec3 \<Rightarrow> real" where
  "length_squared v = vx v * vx v + vy v * vy v + vz v * vz v"

definition vlength :: "vec3 \<Rightarrow> real" where
  "vlength v = sqrt (length_squared v)"

text \<open>
  A quotient of two doubles. With a zero divisor IEEE arithmetic gives NaN or an
  infinity, which no real number stands for.
\<close>

definition fdiv :: "real \<Rightarrow> real \<Rightarrow> real option" where
  "fdiv x y = (if y = 0 then None else Some (x / y))"

text \<open>
  Modelled from the spec: \<open>unit_vector\<close> of \<open>vec3.h\<close> is the vector divided by its
  length, and has no value (NaN components) for a vector of length zero.
\<close>

definition unit_vector :: "vec3 \<Rightarrow> vec3 option" where
  "unit_vector v =
     (if vlength v = 0 then None
      else Some (Vec3 (vx v / vlength v) (vy v / vlength v) (vz v / vlength v)))"

section \<open>Rays (ray.h)\<close>

record ray =
  m_origin :: point3
  m_direction :: vec3

definition mk_ray :: "point3 \<Rightarrow> vec3 \<Rightarrow> ray" where
  "mk_ray origin direction = \<lparr>m_origin = origin, m_direction = direction\<rparr>"

definition origin :: "ray \<Rightarrow> point3" where
  "origin r = m_origin r"

definition direction :: "ray \<Rightarrow> vec3" where
  "direction r = m_direction r"

definition ray_at :: "ray \<Rightarrow> real \<Rightarrow> point3" where
  "ray_at r t = vadd (m_origin r) (smul t (m_direction r))"

section \<open>The standalone sphere intersection (main.cpp, hit_sphere)\<close>

text \<open>
  The function returns a \<open>double\<close>: \<open>-1.0\<close> when the discriminant is negative, the
  quotient \<open>(-half_b - sqrt(discriminant)) / a\<close> otherwise. The quotient has no real value
  when \<open>a\<close> is zero.
\<close>

definition hit_sphere :: "point3 \<Rightarrow> real \<Rightarrow> ray \<Rightarrow> real option" where
  "hit_sphere center radius r =
     (let oc = vsub (origin r) center;
          a = length_squared (direction r);
          half_b = dot oc (direction r);
          c = length_squared oc - radius * radius;
          discriminant = half_b * half_b - a * c
      in if discriminant < 0 then Some (- 1)
         else fdiv (- half_b - sqrt discriminant) a)"

text \<open>
  The quadratic \<open>|O + tD - C|\<^sup>2 = r\<^sup>2\<close> as the specification writes it: its coefficients,
  its discriminant and its two roots, and what it means for a point to lie on the sphere.
\<close>

definition quad_a :: "ray \<Rightarrow> real" where
  "quad_a r = dot (direction r) (direction r)"

definition quad_half_b :: "point3 \<Rightarrow> ray \<Rightarrow> real" where
  "quad_half_b center r = dot (vsub (origin r) center) (direction r)"

definition quad_c :: "point3 \<Rightarrow> real \<Rightarrow> ray \<Rightarrow> real" where
  "quad_c center radius r =
     dot (vsub (origin r) center) (vsub (origin r) center) - radius\<^sup>2"

definition quad_disc :: "point3 \<Rightarrow> real \<Rightarrow> ray \<Rightarrow> real" where
  "quad_disc center radius r =
     (quad_half_b center r)\<^sup>2 - quad_a r * quad_c center radius r"

definition near_root :: "point3 \<Rightarrow> real \<Rightarrow> ray \<Rightarrow> real option" where
  "near_root center radius r =
     fdiv (- quad_half_b center r - sqrt (quad_disc center radius r)) (quad_a r)"

definition far_root :: "point3 \<Rightarrow> real \<Rightarrow> ray \<Rightarrow> real option" where
  "far_root center radius r =
     fdiv (- quad_half_b center r + sqrt (quad_disc center radius r)) (quad_a r)"

definition on_sphere :: "point3 \<Rightarrow> real \<Rightarrow> point3 \<Rightarrow> bool" where
  "on_sphere center radius q \<longleftrightarrow> length_squared (vsub q center) = radius\<^sup>2"

section \<open>The integrator (main.cpp, ray_color)\<close>

text \<open>
  Modelled from the spec: \<open>rtweekend.h\<close>, \<open>hittable.h\<close> and \<open>material.h\<close> are not among
  the translated sources. The constant \<open>infinity\<close> is the positive infinity of \<open>double\<close>. A
  hit record holds the hit point, the surface normal, the material of the surface, the ray
  parameter and the front-face flag. A \<open>hittable\<close> is known by its \<open>hit\<close> method, which
  takes the ray and the two ends of the parameter interval and returns the record of a
  hit, or nothing. A material is known by \<open>scatter\<close>, which gets the incoming ray and the
  hit record and returns the attenuation and the scattered ray, or nothing when the ray is
  absorbed. Scattering draws random numbers from the one generator of the process, whose
  state (of type \<open>'g\<close>) is passed in and returned.
\<close>

datatype xreal = Finite real | PosInf

definition infinity :: xreal where
  "infinity = PosInf"

datatype 'm hit_record =
  Hit_Record (rec_p: point3) (rec_normal: vec3) (rec_mat_ptr: 'm) (rec_t: real)
    (rec_front_face: bool)

type_synonym 'm hittable = "ray \<Rightarrow> real \<Rightarrow> xreal \<Rightarrow> 'm hit_record option"

type_synonym ('m, 'g) scatter =
  "'m \<Rightarrow> ray \<Rightarrow> 'm hit_record \<Rightarrow> 'g \<Rightarrow> (color \<times> ray) option \<times> 'g"

text \<open>
  \<open>ray_color\<close> returns the colour and the generator state it leaves. The colour is \<open>None\<close>
  when its components are NaN, which happens when a ray of zero direction misses the
  scene; a product with a NaN colour is NaN again.
\<close>

function ray_color ::
  "('m, 'g) scatter \<Rightarrow> ray \<Rightarrow> 'm hittable \<Rightarrow> int \<Rightarrow> 'g \<Rightarrow> color option \<times> 'g"
where
  "ray_color scatter r world depth g =
     (if depth \<le> 0 then (Some (Vec3 0 0 0), g)
      else
        (case world r 0.001 infinity of
           Some rec \<Rightarrow>
             (case scatter (rec_mat_ptr rec) r rec g of
                (Some (attenuation, scattered), g') \<Rightarrow>
                  (case ray_color scatter scattered world (depth - 1) g' of
                     (c, g'') \<Rightarrow> (map_option (vmul attenuation) c, g''))
              | (None, g') \<Rightarrow> (Some (Vec3 0 0 0), g'))
         | None \<Rightarrow>
             (case unit_vector (direction r) of
                None \<Rightarrow> (None, g)
              | Some unit_direction \<Rightarrow>
                  (let t = 0.5 * (vy unit_direction + 1.0)
                   in (Some (vadd (smul (1.0 - t) (Vec3 1.0 1.0 1.0))
                                  (smul t (Vec3 0.5 0.7 1.0))), g)))))"
  by pat_completeness auto
termination
  by (relation "measure (\<lambda>(scatter, r, world, depth, g). nat depth)") auto

declare ray_color.simps [simp del]

text \<open>
  The queries \<open>ray_color\<close> puts to the scene, in the order it makes them: the ray and the
  two ends of the interval of each call of \<open>world.hit\<close>. The function follows the recursion
  of \<open>ray_color\<close> and records the arguments of the one call in its body.
\<close>

function ray_color_queries ::
  "('m, 'g) scatter \<Rightarrow> ray \<Rightarrow> 'm hittable \<Rightarrow> int \<Rightarrow> 'g \<Rightarrow> (ray \<times> real \<times> xreal) list"
where
  "ray_color_queries scatter r world depth g =
     (if depth \<le> 0 then []
      else (r, 0.001, infinity) #
        (case world r 0.001 infinity of
           Some rec \<Rightarrow>
             (case scatter (rec_mat_ptr rec) r rec g of
                (Some (attenuation, scattered), g') \<Rightarrow>
                  ray_color_queries scatter scattered world (depth - 1) g'
              | (None, g') \<Rightarrow> [])
         | None \<Rightarrow> []))"
  by pat_completeness auto
termination
  by (relation "measure (\<lambda>(scatter, r, world, depth, g). nat depth)") auto

declare ray_color_queries.simps [simp del]

section \<open>The sphere's hit method (sphere.h)\<close>

text \<open>A parameter below an end of an interval that may be infinite.\<close>

fun xless :: "real \<Rightarrow> xreal \<Rightarrow> bool" where
  "xless t (Finite u) = (t < u)"
| "xless t PosInf = True"

text \<open>
  A root lies in the open interval \<open>(t_min, t_max)\<close>. A root that has no value (the
  quotient by \<open>a = 0\<close> of a ray of zero direction) lies in no interval.
\<close>

definition in_interval :: "real \<Rightarrow> xreal \<Rightarrow> real option \<Rightarrow> bool" where
  "in_interval t_min t_max x =
     (case x of None \<Rightarrow> False | Some t \<Rightarrow> t_min < t \<and> xless t t_max)"

text \<open>
  Modelled from the spec: \<open>sphere.h\<close> is not among the translated sources. This is the
  \<open>hit(ray, t_min, t_max)\<close> of a sphere as the specification gives it, the method the
  scene reaches through \<open>world.hit\<close>: solve the quadratic; no real root, no hit; otherwise
  take the smaller root, and if it is outside \<open>(t_min, t_max)\<close> try the larger one; if
  neither lies in the interval, no hit. The result is the ray parameter \<open>t\<close> of the hit
  record, or \<open>None\<close> for no hit; the other fields of the record are computed from \<open>t\<close>
  and are left out.
\<close>

definition sphere_hit :: "point3 \<Rightarrow> real \<Rightarrow> ray \<Rightarrow> real \<Rightarrow> xreal \<Rightarrow> real option" where
  "sphere_hit center radius r t_min t_max =
     (if quad_disc center radius r < 0 then None
      else if in_interval t_min t_max (near_root center radius r)
        then near_root center radius r
      else if in_interval t_min t_max (far_root center radius r)
        then far_root center radius r
      else None)"

section \<open>Rendering (main.cpp, main)\<close>

text \<open>
  \<open>static_cast<int>\<close> of a double drops the fraction, towards zero. Printing an \<open>int\<close> to
  a stream writes its decimal digits, with a minus sign for a negative number.
\<close>

definition static_cast_int :: "real \<Rightarrow> int" where
  "static_cast_int x = (if 0 \<le> x then \<lfloor>x\<rfloor> else \<lceil>x\<rceil>)"

definition digit :: "nat \<Rightarrow> char" where
  "digit n = ''0123456789'' ! n"

fun string_of_nat :: "nat \<Rightarrow> string" where
  "string_of_nat n =
     (if n < 10 then [digit n] else string_of_nat (n div 10) @ [digit (n mod 10)])"

declare string_of_nat.simps [simp del]

definition show_int :: "int \<Rightarrow> string" where
  "show_int k =
     (if k < 0 then CHR ''-'' # string_of_nat (nat (- k)) else string_of_nat (nat k))"

definition aspect_ratio :: real where
  "aspect_ratio = 16.0 / 9.0"

definition image_width :: int where
  "image_width = 800"

definition image_height :: int where
  "image_height = static_cast_int (real_of_int image_width / aspect_ratio)"

definition samples_per_pixel :: int where
  "samples_per_pixel = 250"

definition max_depth :: int where
  "max_depth = 10"

text \<open>
  Modelled from the spec: \<open>hittable_list.h\<close>, \<open>sphere.h\<close>, \<open>material.h\<close>, \<open>camera.h\<close>,
  \<open>colour.h\<close> and \<open>rtweekend.h\<close> are not among the translated sources, so the objects
  \<open>main\<close> builds from them are parameters of the rendering loop: the scene \<open>world\<close> with
  its \<open>hit\<close> method, the materials' \<open>scatter\<close>, the camera's \<open>get_ray\<close> (which draws
  random numbers for the lens), \<open>random_double\<close>, and \<open>write_colour\<close>, which gets the
  summed colour of a pixel and the number of samples and yields the text it writes.
\<close>

record ('m, 'g) parts =
  part_world :: "'m hittable"
  part_scatter :: "('m, 'g) scatter"
  part_get_ray :: "real \<Rightarrow> real \<Rightarrow> 'g \<Rightarrow> ray \<times> 'g"
  part_random_double :: "'g \<Rightarrow> real \<times> 'g"
  part_write_colour :: "color option \<Rightarrow> int \<Rightarrow> string"

text \<open>The state of the process: what was written to the two streams, and the generator.\<close>

record 'g io =
  cout :: string
  cerr :: string
  gen :: 'g

text \<open>\<open>pixel_color += ...\<close>: a sum with a NaN colour is NaN.\<close>

definition color_add :: "color option \<Rightarrow> color option \<Rightarrow> color option" where
  "color_add a b =
     (case (a, b) of (Some u, Some v) \<Rightarrow> Some (vadd u v) | _ \<Rightarrow> None)"

text \<open>The loop over the samples of pixel \<open>(i, j)\<close>, from sample \<open>s\<close> on.\<close>

function sample_loop ::
  "('m, 'g) parts \<Rightarrow> int \<Rightarrow> int \<Rightarrow> int \<Rightarrow> color option \<Rightarrow> 'g \<Rightarrow> color option \<times> 'g"
where
  "sample_loop e i j s pixel_color g =
     (if s < samples_per_pixel then
        (case part_random_double e g of (x, g1) \<Rightarrow>
         let u = (real_of_int i + x) / real_of_int (image_width - 1) in
         (case part_random_double e g1 of (y, g2) \<Rightarrow>
          let v = (real_of_int j + y) / real_of_int (image_height - 1) in
          (case part_get_ray e u v g2 of (r, g3) \<Rightarrow>
           (case ray_color (part_scatter e) r (part_world e) max_depth g3 of (c, g4) \<Rightarrow>
              sample_loop e i j (s + 1) (color_add pixel_color c) g4))))
      else (pixel_color, g))"
  by pat_completeness auto
termination
  by (relation "measure (\<lambda>(e, i, j, s, pixel_color, g). nat (samples_per_pixel - s))") auto

declare sample_loop.simps [simp del]

text \<open>The body of the loop over \<open>i\<close>, and that loop from column \<open>i\<close> on.\<close>

definition pixel_body :: "('m, 'g) parts \<Rightarrow> int \<Rightarrow> int \<Rightarrow> 'g io \<Rightarrow> 'g io" where
  "pixel_body e j i st =
     (case sample_loop e i j 0 (Some (Vec3 0 0 0)) (gen st) of
        (pixel_color, g') \<Rightarrow>
          st\<lparr>cout := cout st @ part_write_colour e pixel_color samples_per_pixel, gen := g'\<rparr>)"

function pixel_loop :: "('m, 'g) parts \<Rightarrow> int \<Rightarrow> int \<Rightarrow> 'g io \<Rightarrow> 'g io" where
  "pixel_loop e j i st =
     (if i < image_width then pixel_loop e j (i + 1) (pixel_body e j i st) else st)"
  by pat_completeness auto
termination
  by (relation "measure (\<lambda>(e, j, i, st). nat (image_width - i))") auto

declare pixel_loop.simps [simp del]

text \<open>The body of the loop over \<open>j\<close>, and that loop from row \<open>j\<close> down.\<close>

definition scanline_body :: "('m, 'g) parts \<Rightarrow> int \<Rightarrow> 'g io \<Rightarrow> 'g io" where
  "scanline_body e j st =
     pixel_loop e j 0
       (st\<lparr>cerr := cerr st @ [CHR 0x0D] @ ''Scanlines remaining: '' @ show_int j @ '' ''\<rparr>)"

function scanline_loop :: "('m, 'g) parts \<Rightarrow> int \<Rightarrow> 'g io \<Rightarrow> 'g io" where
  "scanline_loop e j st =
     (if j \<ge> 0 then scanline_loop e (j - 1) (scanline_body e j st) else st)"
  by pat_completeness auto
termination
  by (relation "measure (\<lambda>(e, j, st). nat (j + 1))") auto

declare scanline_loop.simps [simp del]

definition main :: "('m, 'g) parts \<Rightarrow> 'g \<Rightarrow> 'g io" where
  "main e g =
     (let st0 = \<lparr>cout = [], cerr = [], gen = g\<rparr>;
          st1 = st0\<lparr>cout := cout st0 @ ''P3'' @ [CHR 0x0A] @ show_int image_width @ '' ''
                     @ show_int image_height @ [CHR 0x0A] @ ''255'' @ [CHR 0x0A]\<rparr>;
          st2 = scanline_loop e (image_height - 1) st1
      in st2\<lparr>cerr := cerr st2 @ [CHR 0x0A] @ ''Done.'' @ [CHR 0x0A]\<rparr>)"

text \<open>
  The pixel stream as the specification describes it: the texts of the pixels of a list
  of coordinates \<open>(j, i)\<close>, one after the other in the order of the list, each the text
  \<open>write_colour\<close> gives for the summed samples of that pixel. \<open>pixel_gen\<close> is the generator
  state after those pixels.
\<close>

fun pixel_stream :: "('m, 'g) parts \<Rightarrow> (int \<times> int) list \<Rightarrow> 'g \<Rightarrow> string" where
  "pixel_stream e [] g = []"
| "pixel_stream e ((j, i) # ps) g =
     (case sample_loop e i j 0 (Some (Vec3 0 0 0)) g of
        (pixel_color, g') \<Rightarrow>
          part_write_colour e pixel_color samples_per_pixel @ pixel_stream e ps g')"

fun pixel_gen :: "('m, 'g) parts \<Rightarrow> (int \<times> int) list \<Rightarrow> 'g \<Rightarrow> 'g" where
  "pixel_gen e [] g = g"
| "pixel_gen e ((j, i) # ps) g =
     (case sample_loop e i j 0 (Some (Vec3 0 0 0)) g of
        (pixel_color, g') \<Rightarrow> pixel_gen e ps g')"

text \<open>
  The order of the pixels as the specification describes it: row by row from the row of
  the largest \<open>j\<close> down to row 0, and from left to right within a row.
\<close>

definition scan_order :: "(int \<times> int) list" where
  "scan_order =
     concat (map (\<lambda>j. map (\<lambda>i. (j, i)) [0..image_width - 1]) (rev [0..image_height - 1]))"

section \<open>A small scene\<close>

text \<open>
  A scene and two materials on which the integrator can be run by hand: a floor that
  every ray heading down reaches at parameter 1, a material that sends every ray
  straight up with half its colour, and one that absorbs every ray. The generator state
  is a counter of the scatterings.
\<close>

definition floor_below :: "unit hittable" where
  "floor_below r t_min t_max =
     (if vy (direction r) < 0 \<and> t_min < 1 \<and> xless 1 t_max
      then Some (Hit_Record (ray_at r 1) (Vec3 0 1 0) () 1 True) else None)"

definition bounce_up :: "(unit, nat) scatter" where
  "bounce_up m r rec g = (Some (Vec3 0.5 0.5 0.5, mk_ray (rec_p rec) (Vec3 0 1 0)), Suc g)"

definition absorber :: "(unit, nat) scatter" where
  "absorber m r rec g = (None, Suc g)"

definition looking_down :: ray where
  "looking_down = mk_ray (Vec3 0 1 0) (Vec3 0 (- 1) 0)"

definition looking_up :: ray where
  "looking_up = mk_ray (Vec3 0 0 0) (Vec3 0 1 0)"

definition looking_ahead :: ray where
  "looking_ahead = mk_ray (Vec3 0 0 0) (Vec3 0 3 4)"

text \<open>Three rays along the \<open>z\<close> axis, for spheres centred at the origin.\<close>

definition from_centre :: ray where
  "from_centre = mk_ray (Vec3 0 0 0) (Vec3 0 0 1)"

definition from_outside :: ray where
  "from_outside = mk_ray (Vec3 0 0 (- 5)) (Vec3 0 0 1)"

definition passing_by :: ray where
  "passing_by = mk_ray (Vec3 0 5 (- 5)) (Vec3 0 0 1)"

section \<open>Auxiliary facts\<close>

lemmas vec_defs = vadd_def vsub_def smul_def vmul_def dot_def length_squared_def vlength_def
lemmas ray_defs = mk_ray_def origin_def direction_def ray_at_def
lemmas quad_defs = quad_a_def quad_half_b_def quad_c_def quad_disc_def near_root_def
  far_root_def

lemma hit_sphere_quad:
  "hit_sphere center radius r =
     (if quad_disc center radius r < 0 then Some (- 1) else near_root center radius r)"
  by (simp add: hit_sphere_def quad_defs length_squared_def dot_def power2_eq_square Let_def)

lemma length_squared_at:
  "length_squared (vsub (ray_at r t) center) =
     quad_a r * t\<^sup>2 + 2 * quad_half_b center r * t + quad_c center radius r + radius\<^sup>2"
  by (simp add: quad_defs ray_defs vec_defs power2_eq_square algebra_simps)

lemma root_on_sphere:
  assumes d: "\<not> quad_disc center radius r < 0" and a: "quad_a r \<noteq> 0"
    and t: "t = (- quad_half_b center r - sqrt (quad_disc center radius r)) / quad_a r
          \<or> t = (- quad_half_b center r + sqrt (quad_disc center radius r)) / quad_a r"
  shows "on_sphere center radius (ray_at r t)"
proof -
  define s where "s = sqrt (quad_disc center radius r)"
  have s2: "s\<^sup>2 = (quad_half_b center r)\<^sup>2 - quad_a r * quad_c center radius r"
    using d by (simp add: s_def quad_disc_def)
  from t have at: "quad_a r * t = - quad_half_b center r - s \<or> quad_a r * t = - quad_half_b center r + s"
    using a by (auto simp: s_def)
  then have "(quad_a r * t + quad_half_b center r)\<^sup>2 = s\<^sup>2"
    by auto
  then have "quad_a r * (quad_a r * t\<^sup>2 + 2 * quad_half_b center r * t + quad_c center radius r) = 0"
    using s2 by (simp add: power2_eq_square algebra_simps)
  then have "quad_a r * t\<^sup>2 + 2 * quad_half_b center r * t + quad_c center radius r = 0"
    using a by simp
  then show ?thesis
    by (simp add: on_sphere_def length_squared_at [of r t center radius])
qed

lemma on_sphere_root:
  assumes a: "quad_a r \<noteq> 0" and o: "on_sphere center radius (ray_at r t)"
  shows "\<not> quad_disc center radius r < 0
       \<and> (near_root center radius r = Some t \<or> far_root center radius r = Some t)"
proof -
  have z: "quad_a r * t\<^sup>2 + 2 * quad_half_b center r * t + quad_c center radius r = 0"
    using o by (simp add: on_sphere_def length_squared_at [of r t center radius])
  have sq: "(quad_a r * t + quad_half_b center r)\<^sup>2 = quad_disc center radius r"
  proof -
    have "(quad_a r * t + quad_half_b center r)\<^sup>2 - quad_disc center radius r
        = quad_a r * (quad_a r * t\<^sup>2 + 2 * quad_half_b center r * t + quad_c center radius r)"
      by (simp add: quad_disc_def power2_eq_square algebra_simps)
    then show ?thesis using z by simp
  qed
  then have d: "\<not> quad_disc center radius r < 0"
    using zero_le_power2 [of "quad_a r * t + quad_half_b center r"] by simp
  have "sqrt (quad_disc center radius r) = \<bar>quad_a r * t + quad_half_b center r\<bar>"
    using sq [symmetric] by simp
  then have "quad_a r * t = - quad_half_b center r - sqrt (quad_disc center radius r)
      \<or> quad_a r * t = - quad_half_b center r + sqrt (quad_disc center radius r)"
    by linarith
  then have "t = (- quad_half_b center r - sqrt (quad_disc center radius r)) / quad_a r
      \<or> t = (- quad_half_b center r + sqrt (quad_disc center radius r)) / quad_a r"
    using a by (auto simp: field_simps)
  then show ?thesis using d a by (auto simp: near_root_def far_root_def fdiv_def)
qed

lemma from_centre_roots:
  "quad_a from_centre = 1 \<and> quad_disc (Vec3 0 0 0) 2 from_centre = 4
   \<and> near_root (Vec3 0 0 0) 2 from_centre = Some (- 2)
   \<and> far_root (Vec3 0 0 0) 2 from_centre = Some 2"
  by (simp add: quad_defs from_centre_def ray_defs vec_defs fdiv_def)

lemma from_outside_roots:
  "quad_disc (Vec3 0 0 0) 1 from_outside = 1
   \<and> near_root (Vec3 0 0 0) 1 from_outside = Some 4"
  by (simp add: quad_defs from_outside_def ray_defs vec_defs fdiv_def)

lemma passing_by_disc: "quad_disc (Vec3 0 0 0) 1 passing_by = - 24"
  by (simp add: quad_defs passing_by_def ray_defs vec_defs)

lemma vlength_zero_iff: "vlength v = 0 \<longleftrightarrow> v = Vec3 0 0 0"
proof (cases v)
  case (Vec3 a b c)
  have "a = 0 \<and> b = 0 \<and> c = 0" if h: "a * a + b * b + c * c = 0"
  proof -
    have "a * a = 0" "b * b = 0" "c * c = 0"
      using h zero_le_square [of a] zero_le_square [of b] zero_le_square [of c]
      by linarith+
    then show ?thesis by simp
  qed
  then have "a * a + b * b + c * c = 0 \<longleftrightarrow> a = 0 \<and> b = 0 \<and> c = 0"
    by auto
  then show ?thesis using Vec3 by (simp add: vlength_def length_squared_def)
qed

lemma vy_le_vlength: "\<bar>vy v\<bar> \<le> vlength v"
proof -
  have "(vy v)\<^sup>2 \<le> length_squared v"
    by (simp add: length_squared_def power2_eq_square)
  then have "sqrt ((vy v)\<^sup>2) \<le> sqrt (length_squared v)"
    by (rule real_sqrt_le_mono)
  then show ?thesis by (simp add: vlength_def)
qed

lemma unit_vector_vy:
  assumes "unit_vector v = Some u"
  shows "- 1 \<le> vy u \<and> vy u \<le> 1"
proof -
  from assms have nz: "vlength v \<noteq> 0" and u: "vy u = vy v / vlength v"
    by (auto simp: unit_vector_def split: if_splits)
  have pos: "0 < vlength v"
    using nz by (simp add: vlength_def length_squared_def less_le sum_nonneg)
  have "- vlength v \<le> vy v" and "vy v \<le> vlength v"
    using vy_le_vlength [of v] by linarith+
  then have "- 1 \<le> vy v / vlength v" and "vy v / vlength v \<le> 1"
    using pos by (simp_all add: le_divide_eq divide_le_eq)
  then show ?thesis using u by simp
qed

lemma queries_interval:
  "q \<in> set (ray_color_queries scatter r world depth g) \<Longrightarrow>
     fst (snd q) = 0.001 \<and> snd (snd q) = infinity"
proof (induction scatter r world depth g rule: ray_color_queries.induct)
  case (1 scatter r world depth g)
  show ?case
  proof (cases "depth \<le> 0")
    case True
    with "1.prems" show ?thesis by (simp add: ray_color_queries.simps [of scatter r world depth g])
  next
    case False
    show ?thesis
    proof (cases "world r 0.001 infinity")
      case None
      with False "1.prems" show ?thesis
        by (simp add: ray_color_queries.simps [of scatter r world depth g])
    next
      case (Some rec)
      obtain res g' where sc: "scatter (rec_mat_ptr rec) r rec g = (res, g')"
        by (cases "scatter (rec_mat_ptr rec) r rec g")
      show ?thesis
      proof (cases res)
        case None
        with False Some sc "1.prems" show ?thesis
          by (simp add: ray_color_queries.simps [of scatter r world depth g])
      next
        case (Some as)
        obtain attenuation scattered where as: "as = (attenuation, scattered)"
          by (cases as)
        from "1.prems" False \<open>world r 0.001 infinity = Some rec\<close> sc Some as
        have "q = (r, 0.001, infinity)
            \<or> q \<in> set (ray_color_queries scatter scattered world (depth - 1) g')"
          by (simp add: ray_color_queries.simps [of scatter r world depth g])
        then show ?thesis
        proof
          assume "q = (r, 0.001, infinity)"
          then show ?thesis by simp
        next
          assume "q \<in> set (ray_color_queries scatter scattered world (depth - 1) g')"
          with "1.IH" [OF False \<open>world r 0.001 infinity = Some rec\<close> sc [symmetric] Some as [symmetric] ] 
          show ?thesis by simp
        qed
      qed
    qed
  qed
qed


lemma queries_determine_color:
  "(\<And>q. q \<in> set (ray_color_queries scatter r world depth g) \<Longrightarrow>
        world' (fst q) (fst (snd q)) (snd (snd q)) = world (fst q) (fst (snd q)) (snd (snd q)))
   \<Longrightarrow> ray_color scatter r world' depth g = ray_color scatter r world depth g"
proof (induction scatter r world depth g rule: ray_color_queries.induct)
  case (1 scatter r world depth g)
  show ?case
  proof (cases "depth \<le> 0")
    case True
    then show ?thesis
      by (simp add: ray_color.simps [of scatter r _ depth g])
  next
    case False
    have q0: "(r, 0.001, infinity) \<in> set (ray_color_queries scatter r world depth g)"
      using False by (simp add: ray_color_queries.simps [of scatter r world depth g])
    have same: "world' r 0.001 infinity = world r 0.001 infinity"
      using "1.prems" [OF q0] by simp
    show ?thesis
    proof (cases "world r 0.001 infinity")
      case None
      with False same show ?thesis
        by (simp add: ray_color.simps [of scatter r _ depth g])
    next
      case (Some rec)
      obtain res g' where sc: "scatter (rec_mat_ptr rec) r rec g = (res, g')"
        by (cases "scatter (rec_mat_ptr rec) r rec g")
      show ?thesis
      proof (cases res)
        case None
        with False Some same sc show ?thesis
          by (simp add: ray_color.simps [of scatter r _ depth g])
      next
        case (Some as)
        obtain attenuation scattered where as: "as = (attenuation, scattered)"
          by (cases as)
        have sub: "set (ray_color_queries scatter scattered world (depth - 1) g')
            \<subseteq> set (ray_color_queries scatter r world depth g)"
          using False \<open>world r 0.001 infinity = Some rec\<close> sc Some as
          by (auto simp: ray_color_queries.simps [of scatter r world depth g])
        have "ray_color scatter scattered world' (depth - 1) g'
            = ray_color scatter scattered world (depth - 1) g'"
          using "1.IH" [OF False \<open>world r 0.001 infinity = Some rec\<close> sc [symmetric]
              Some as [symmetric]] "1.prems" sub
          by blast
        with False \<open>world r 0.001 infinity = Some rec\<close> same sc Some as show ?thesis
          by (simp add: ray_color.simps [of scatter r _ depth g])
      qed
    qed
  qed
qed

lemma floor_down: "t_min < 1 \<Longrightarrow> floor_below looking_down t_min PosInf
   = Some (Hit_Record (Vec3 0 0 0) (Vec3 0 1 0) () 1 True)"
  by (simp add: floor_below_def looking_down_def ray_defs vec_defs)

lemma floor_up: "floor_below looking_up t_min t_max = None"
  by (simp add: floor_below_def looking_up_def ray_defs)

lemma unit_up: "unit_vector (direction looking_up) = Some (Vec3 0 1 0)"
  by (simp add: unit_vector_def looking_up_def ray_defs vec_defs)

lemma bounce_down: "bounce_up () looking_down (Hit_Record (Vec3 0 0 0) (Vec3 0 1 0) () 1 True) g
   = (Some (Vec3 0.5 0.5 0.5, looking_up), Suc g)"
  by (simp add: bounce_up_def looking_up_def)

lemma sky_color: "ray_color sc looking_up floor_below 1 g = (Some (Vec3 0.5 0.7 1), g)"
  by (simp add: ray_color.simps [of sc looking_up floor_below 1 g] floor_up unit_up vec_defs infinity_def)

lemma sky_queries: "ray_color_queries sc looking_up floor_below 1 g
    = [(looking_up, 0.001, PosInf)]"
  by (simp add: ray_color_queries.simps [of sc looking_up floor_below 1 g] floor_up infinity_def)

lemma bounce_queries: "ray_color_queries bounce_up looking_down floor_below 2 0
    = [(looking_down, 0.001, PosInf), (looking_up, 0.001, PosInf)]"
  by (simp add: ray_color_queries.simps [of bounce_up looking_down floor_below 2 0]
      sky_queries floor_down bounce_down infinity_def)

lemma image_height_450: "image_height = 450"
  by (simp add: image_height_def image_width_def aspect_ratio_def static_cast_int_def)

lemma show_800: "show_int 800 = ''800''"
  by (simp add: show_int_def string_of_nat.simps [of 800] string_of_nat.simps [of 80]
      string_of_nat.simps [of 8] digit_def)

lemma show_450: "show_int 450 = ''450''"
  by (simp add: show_int_def string_of_nat.simps [of 450] string_of_nat.simps [of 45]
      string_of_nat.simps [of 4] digit_def)

lemma pixel_loop_fold:
  "pixel_loop e j i st = foldl (\<lambda>st i. pixel_body e j i st) st [i..image_width - 1]"
proof (induction e j i st rule: pixel_loop.induct)
  case (1 e j i st)
  show ?case
  proof (cases "i < image_width")
    case True
    then have "[i..image_width - 1] = i # [i + 1..image_width - 1]"
      by (simp add: upto_rec1)
    with True "1.IH" show ?thesis
      by (simp add: pixel_loop.simps [of e j i st])
  next
    case False
    then show ?thesis by (simp add: pixel_loop.simps [of e j i st])
  qed
qed

lemma scanline_loop_fold:
  "scanline_loop e j st = foldl (\<lambda>st j. scanline_body e j st) st (rev [0..j])"
proof (induction e j st rule: scanline_loop.induct)
  case (1 e j st)
  show ?case
  proof (cases "j \<ge> 0")
    case True
    then have "[0..j] = [0..j - 1] @ [j]"
      by (simp add: upto_rec2)
    with True "1.IH" show ?thesis
      by (simp add: scanline_loop.simps [of e j st])
  next
    case False
    then show ?thesis by (simp add: scanline_loop.simps [of e j st])
  qed
qed


lemma pixel_stream_append:
  "pixel_stream e (ps @ qs) g = pixel_stream e ps g @ pixel_stream e qs (pixel_gen e ps g)"
  by (induction e ps g rule: pixel_stream.induct) (auto split: prod.splits)

lemma pixel_gen_append:
  "pixel_gen e (ps @ qs) g = pixel_gen e qs (pixel_gen e ps g)"
  by (induction e ps g rule: pixel_gen.induct) (auto split: prod.splits)

lemma fold_pixel_body:
  "foldl (\<lambda>st i. pixel_body e j i st) st is =
     st\<lparr>cout := cout st @ pixel_stream e (map (\<lambda>i. (j, i)) is) (gen st),
        gen := pixel_gen e (map (\<lambda>i. (j, i)) is) (gen st)\<rparr>"
proof (induction "is" arbitrary: st)
  case Nil
  show ?case by simp
next
  case (Cons i "is")
  show ?case
    by (simp add: Cons.IH) (simp add: pixel_body_def split: prod.splits)
qed

lemma scanline_body_cout_gen:
  "cout (scanline_body e j st) =
     cout st @ pixel_stream e (map (\<lambda>i. (j, i)) [0..image_width - 1]) (gen st)
   \<and> gen (scanline_body e j st) =
     pixel_gen e (map (\<lambda>i. (j, i)) [0..image_width - 1]) (gen st)"
  by (simp add: scanline_body_def pixel_loop_fold fold_pixel_body)

lemma fold_scanline_body:
  "cout (foldl (\<lambda>st j. scanline_body e j st) st js) =
     cout st @ pixel_stream e
       (concat (map (\<lambda>j. map (\<lambda>i. (j, i)) [0..image_width - 1]) js)) (gen st)
   \<and> gen (foldl (\<lambda>st j. scanline_body e j st) st js) =
     pixel_gen e (concat (map (\<lambda>j. map (\<lambda>i. (j, i)) [0..image_width - 1]) js)) (gen st)"
proof (induction js arbitrary: st)
  case Nil
  show ?case by simp
next
  case (Cons j js)
  show ?case
    by (simp add: Cons.IH scanline_body_cout_gen pixel_stream_append pixel_gen_append)
qed

lemma scan_order_explicit:
  "scan_order = concat (map (\<lambda>j. map (\<lambda>i. (j, i)) [0..799]) (rev [0..449]))"
  by (simp add: scan_order_def image_width_def image_height_450 del: upto_rec_numeral)

lemma rows_hd:
  assumes "0 \<le> h" and "0 \<le> w"
  shows "hd (concat (map (\<lambda>j. map (\<lambda>i. (j, i)) [0..w]) (rev [0..h]))) = (h, 0::int)"
proof -
  have a: "[0..h] = [0..h - 1] @ [h]" using assms(1) by (rule upto_rec2)
  have b: "[0..w] = 0 # [0 + 1..w]" using assms(2) by (rule upto_rec1)
  show ?thesis by (subst a, subst b) simp
qed

lemma rows_last:
  assumes "0 \<le> h" and "0 \<le> w"
  shows "last (concat (map (\<lambda>j. map (\<lambda>i. (j, i)) [0..w]) (rev [0..h]))) = (0::int, w)"
proof -
  have a: "[0..h] = 0 # [0 + 1..h]" using assms(1) by (rule upto_rec1)
  have b: "[0..w] = [0..w - 1] @ [w]" using assms(2) by (rule upto_rec2)
  show ?thesis by (subst a, subst b) simp
qed

lemma rows_length:
  "length (concat (map (\<lambda>j. map (\<lambda>i. (j, i)) [0..w]) (rev [0..h])))
     = nat (h + 1) * nat (w + 1)"
  by (simp add: length_concat comp_def sum_list_triv)

lemma scan_order_hd: "hd scan_order = (449, 0)"
  unfolding scan_order_explicit by (rule rows_hd) simp_all

lemma scan_order_last: "last scan_order = (0, 799)"
  unfolding scan_order_explicit by (rule rows_last) simp_all

lemma scan_order_length: "length scan_order = 360000"
  unfolding scan_order_explicit by (simp only: rows_length) simp

section \<open>Rays\<close>

text \<open>
  C7. For a ray built from an origin and a direction, \<open>at(t)\<close> is \<open>origin + t * direction\<close>
  for every real \<open>t\<close>, component by component; the ray's accessors still return the origin
  and the direction it was built from, so evaluating \<open>at\<close> changes nothing.
\<close>

theorem ray_at_origin_plus_t_direction:
  "ray_at (mk_ray orig dir) t =
     Vec3 (vx orig + t * vx dir) (vy orig + t * vy dir) (vz orig + t * vz dir)
   \<and> ray_at (mk_ray orig dir) t = vadd orig (smul t dir)
   \<and> origin (mk_ray orig dir) = orig
   \<and> direction (mk_ray orig dir) = dir"
  by (simp add: ray_at_def mk_ray_def origin_def direction_def vadd_def smul_def)

section \<open>The standalone sphere intersection\<close>

text \<open>
  C1. \<open>hit_sphere\<close> solves the quadratic with \<open>a = D\<cdot>D\<close>, \<open>half_b = (O - C)\<cdot>D\<close>,
  \<open>c = |O - C|\<^sup>2 - r\<^sup>2\<close> and discriminant \<open>half_b\<^sup>2 - a c\<close>: with a negative discriminant it
  returns the miss value \<open>-1\<close>, otherwise the smaller root \<open>(-half_b - sqrt disc) / a\<close>. For
  the ray from \<open>(0,0,-5)\<close> along \<open>(0,0,1)\<close> and the unit sphere at the origin it returns 4,
  and the point of the ray at parameter 4 lies on the sphere.
\<close>

theorem hit_sphere_solves_quadratic:
  "(quad_disc center radius r < 0 \<longrightarrow> hit_sphere center radius r = Some (- 1))
   \<and> (\<not> quad_disc center radius r < 0 \<longrightarrow>
        hit_sphere center radius r =
          fdiv (- quad_half_b center r - sqrt (quad_disc center radius r)) (quad_a r))
   \<and> hit_sphere (Vec3 0 0 0) 1 (mk_ray (Vec3 0 0 (- 5)) (Vec3 0 0 1)) = Some 4
   \<and> on_sphere (Vec3 0 0 0) 1 (ray_at (mk_ray (Vec3 0 0 (- 5)) (Vec3 0 0 1)) 4)"
proof -
  have "hit_sphere (Vec3 0 0 0) 1 (mk_ray (Vec3 0 0 (- 5)) (Vec3 0 0 1)) = Some 4"
    by (simp add: hit_sphere_def ray_defs vec_defs fdiv_def)
  moreover have "on_sphere (Vec3 0 0 0) 1 (ray_at (mk_ray (Vec3 0 0 (- 5)) (Vec3 0 0 1)) 4)"
    by (simp add: on_sphere_def ray_defs vec_defs)
  ultimately show ?thesis
    by (simp add: hit_sphere_quad near_root_def)
qed

theorem hit_sphere_solves_quadratic_witness:
  "quad_disc (Vec3 0 0 0) 1 (mk_ray (Vec3 0 5 (- 5)) (Vec3 0 0 1)) = - 24
   \<and> hit_sphere (Vec3 0 0 0) 1 (mk_ray (Vec3 0 5 (- 5)) (Vec3 0 0 1)) = Some (- 1)
   \<and> quad_disc (Vec3 0 0 0) 1 (mk_ray (Vec3 0 0 (- 5)) (Vec3 0 0 1)) = 1
   \<and> hit_sphere (Vec3 0 0 0) 1 (mk_ray (Vec3 0 0 (- 5)) (Vec3 0 0 1)) = fdiv (5 - sqrt 1) 1"
proof -
  have d1: "quad_disc (Vec3 0 0 0) 1 (mk_ray (Vec3 0 5 (- 5)) (Vec3 0 0 1)) = - 24"
    by (simp add: quad_defs ray_defs vec_defs)
  have d2: "quad_disc (Vec3 0 0 0) 1 (mk_ray (Vec3 0 0 (- 5)) (Vec3 0 0 1)) = 1"
    by (simp add: quad_defs ray_defs vec_defs)
  have b2: "quad_half_b (Vec3 0 0 0) (mk_ray (Vec3 0 0 (- 5)) (Vec3 0 0 1)) = - 5"
    by (simp add: quad_defs ray_defs vec_defs)
  have a2: "quad_a (mk_ray (Vec3 0 0 (- 5)) (Vec3 0 0 1)) = 1"
    by (simp add: quad_defs ray_defs vec_defs)
  show ?thesis
    using hit_sphere_solves_quadratic [of "Vec3 0 0 0" 1 "mk_ray (Vec3 0 5 (- 5)) (Vec3 0 0 1)"]
      hit_sphere_solves_quadratic [of "Vec3 0 0 0" 1 "mk_ray (Vec3 0 0 (- 5)) (Vec3 0 0 1)"]
    by (simp add: d1 d2 b2 a2)
qed

text \<open>
  C2. For every ray and every interval \<open>(t_min, t_max)\<close>: when the smaller root \<open>t1\<close> is
  outside the interval, the sphere's \<open>hit\<close> tries the larger root \<open>t2\<close>, and it reports no
  hit only if neither root lies in the interval. What it reports lies in the interval and
  on the sphere, and when it reports no hit for a ray of non-zero direction, no point of
  the ray with a parameter in the interval lies on the sphere.
\<close>

theorem sphere_hit_tries_far_root:
  "(\<not> quad_disc center radius r < 0 \<and> \<not> in_interval t_min t_max (near_root center radius r)
      \<longrightarrow> sphere_hit center radius r t_min t_max =
            (if in_interval t_min t_max (far_root center radius r)
             then far_root center radius r else None))
   \<and> (\<not> quad_disc center radius r < 0 \<and> sphere_hit center radius r t_min t_max = None
      \<longrightarrow> \<not> in_interval t_min t_max (near_root center radius r)
          \<and> \<not> in_interval t_min t_max (far_root center radius r))
   \<and> (\<not> quad_disc center radius r < 0 \<and> in_interval t_min t_max (near_root center radius r)
      \<longrightarrow> sphere_hit center radius r t_min t_max = near_root center radius r)
   \<and> (quad_disc center radius r < 0 \<longrightarrow> sphere_hit center radius r t_min t_max = None)
   \<and> (\<forall>t. sphere_hit center radius r t_min t_max = Some t
      \<longrightarrow> t_min < t \<and> xless t t_max \<and> on_sphere center radius (ray_at r t))
   \<and> (\<forall>t. quad_a r \<noteq> 0 \<and> sphere_hit center radius r t_min t_max = None
      \<longrightarrow> \<not> (t_min < t \<and> xless t t_max \<and> on_sphere center radius (ray_at r t)))"
proof -
  have sound: "t_min < t \<and> xless t t_max \<and> on_sphere center radius (ray_at r t)"
    if h: "sphere_hit center radius r t_min t_max = Some t" for t
  proof -
    from h have d: "\<not> quad_disc center radius r < 0"
      by (auto simp: sphere_hit_def split: if_splits)
    from h have "(near_root center radius r = Some t \<or> far_root center radius r = Some t)
        \<and> in_interval t_min t_max (Some t)"
      by (auto simp: sphere_hit_def in_interval_def split: if_splits)
    then have rt: "near_root center radius r = Some t \<or> far_root center radius r = Some t"
      and i: "t_min < t \<and> xless t t_max"
      by (auto simp: in_interval_def)
    from rt have a: "quad_a r \<noteq> 0"
      by (auto simp: near_root_def far_root_def fdiv_def split: if_splits)
    from rt have "t = (- quad_half_b center r - sqrt (quad_disc center radius r)) / quad_a r
          \<or> t = (- quad_half_b center r + sqrt (quad_disc center radius r)) / quad_a r"
      by (auto simp: near_root_def far_root_def fdiv_def split: if_splits)
    with d a have "on_sphere center radius (ray_at r t)"
      by (rule root_on_sphere)
    with i show ?thesis by simp
  qed
  have complete: "\<not> (t_min < t \<and> xless t t_max \<and> on_sphere center radius (ray_at r t))"
    if a: "quad_a r \<noteq> 0" and n: "sphere_hit center radius r t_min t_max = None" for t
  proof
    assume h: "t_min < t \<and> xless t t_max \<and> on_sphere center radius (ray_at r t)"
    then have o: "on_sphere center radius (ray_at r t)" by simp
    from on_sphere_root [OF a o]
    have d: "\<not> quad_disc center radius r < 0"
      and rt: "near_root center radius r = Some t \<or> far_root center radius r = Some t"
      by simp_all
    from rt h have "in_interval t_min t_max (near_root center radius r)
        \<or> in_interval t_min t_max (far_root center radius r)"
      by (auto simp: in_interval_def)
    with d n rt show False
      by (auto simp: sphere_hit_def in_interval_def split: if_splits)
  qed
  have c1: "\<not> quad_disc center radius r < 0
      \<and> \<not> in_interval t_min t_max (near_root center radius r)
      \<longrightarrow> sphere_hit center radius r t_min t_max =
            (if in_interval t_min t_max (far_root center radius r)
             then far_root center radius r else None)"
    by (simp add: sphere_hit_def)
  have c2: "\<not> quad_disc center radius r < 0 \<and> sphere_hit center radius r t_min t_max = None
      \<longrightarrow> \<not> in_interval t_min t_max (near_root center radius r)
          \<and> \<not> in_interval t_min t_max (far_root center radius r)"
    by (auto simp: sphere_hit_def in_interval_def split: if_splits option.splits)
  have c3: "\<not> quad_disc center radius r < 0
      \<and> in_interval t_min t_max (near_root center radius r)
      \<longrightarrow> sphere_hit center radius r t_min t_max = near_root center radius r"
    by (simp add: sphere_hit_def)
  have c4: "quad_disc center radius r < 0 \<longrightarrow> sphere_hit center radius r t_min t_max = None"
    by (simp add: sphere_hit_def)
  from c1 c2 c3 c4 sound complete show ?thesis
    by blast
qed

theorem sphere_hit_tries_far_root_witness:
  "\<not> quad_disc (Vec3 0 0 0) 2 from_centre < 0
   \<and> near_root (Vec3 0 0 0) 2 from_centre = Some (- 2)
   \<and> far_root (Vec3 0 0 0) 2 from_centre = Some 2
   \<and> \<not> in_interval 0.001 infinity (Some (- 2))
   \<and> in_interval 0.001 infinity (Some 2)
   \<and> sphere_hit (Vec3 0 0 0) 2 from_centre 0.001 infinity = Some 2
   \<and> on_sphere (Vec3 0 0 0) 2 (ray_at from_centre 2)
   \<and> \<not> in_interval 0.001 (Finite 1) (Some 2)
   \<and> sphere_hit (Vec3 0 0 0) 2 from_centre 0.001 (Finite 1) = None
   \<and> \<not> on_sphere (Vec3 0 0 0) 2 (ray_at from_centre 0.5)
   \<and> \<not> quad_disc (Vec3 0 0 0) 1 from_outside < 0
   \<and> in_interval 0.001 infinity (near_root (Vec3 0 0 0) 1 from_outside)
   \<and> sphere_hit (Vec3 0 0 0) 1 from_outside 0.001 infinity = Some 4
   \<and> quad_disc (Vec3 0 0 0) 1 passing_by < 0
   \<and> sphere_hit (Vec3 0 0 0) 1 passing_by 0.001 infinity = None"
proof -
  note c = from_centre_roots
  note o = from_outside_roots
  have d: "\<not> quad_disc (Vec3 0 0 0) 2 from_centre < 0" by (simp add: c)
  have n1: "\<not> in_interval 0.001 infinity (Some (- 2))"
    by (simp add: in_interval_def)
  have f1: "in_interval 0.001 infinity (Some 2)"
    by (simp add: in_interval_def infinity_def)
  have f2: "\<not> in_interval 0.001 (Finite 1) (Some 2)"
    by (simp add: in_interval_def)
  have n2: "\<not> in_interval 0.001 (Finite 1) (Some (- 2))"
    by (simp add: in_interval_def)
  note t1 = sphere_hit_tries_far_root [of "Vec3 0 0 0" 2 from_centre "0.001" infinity]
  note t2 = sphere_hit_tries_far_root [of "Vec3 0 0 0" 2 from_centre "0.001" "Finite 1"]
  note t3 = sphere_hit_tries_far_root [of "Vec3 0 0 0" 1 from_outside "0.001" infinity]
  note t4 = sphere_hit_tries_far_root [of "Vec3 0 0 0" 1 passing_by "0.001" infinity]
  from t1 have "\<not> quad_disc (Vec3 0 0 0) 2 from_centre < 0
      \<and> \<not> in_interval 0.001 infinity (near_root (Vec3 0 0 0) 2 from_centre)
      \<longrightarrow> sphere_hit (Vec3 0 0 0) 2 from_centre 0.001 infinity =
            (if in_interval 0.001 infinity (far_root (Vec3 0 0 0) 2 from_centre)
             then far_root (Vec3 0 0 0) 2 from_centre else None)"
    by (rule conjunct1)
  then have h1: "sphere_hit (Vec3 0 0 0) 2 from_centre 0.001 infinity = Some 2"
    using d n1 f1 by (simp add: c)
  from t1 have "\<forall>t. sphere_hit (Vec3 0 0 0) 2 from_centre 0.001 infinity = Some t
      \<longrightarrow> 0.001 < t \<and> xless t infinity \<and> on_sphere (Vec3 0 0 0) 2 (ray_at from_centre t)"
    by (elim conjE)
  then have s1: "on_sphere (Vec3 0 0 0) 2 (ray_at from_centre 2)"
    using h1 by (elim allE [where x = 2]) (elim impE, assumption, elim conjE, assumption)
  from t2 have "\<not> quad_disc (Vec3 0 0 0) 2 from_centre < 0
      \<and> \<not> in_interval 0.001 (Finite 1) (near_root (Vec3 0 0 0) 2 from_centre)
      \<longrightarrow> sphere_hit (Vec3 0 0 0) 2 from_centre 0.001 (Finite 1) =
            (if in_interval 0.001 (Finite 1) (far_root (Vec3 0 0 0) 2 from_centre)
             then far_root (Vec3 0 0 0) 2 from_centre else None)"
    by (rule conjunct1)
  then have h2: "sphere_hit (Vec3 0 0 0) 2 from_centre 0.001 (Finite 1) = None"
    using d n2 f2 by (simp add: c)
  have a: "quad_a from_centre \<noteq> 0" by (simp add: c)
  from t2 have "\<forall>t. quad_a from_centre \<noteq> 0
        \<and> sphere_hit (Vec3 0 0 0) 2 from_centre 0.001 (Finite 1) = None
      \<longrightarrow> \<not> (0.001 < t \<and> xless t (Finite 1)
            \<and> on_sphere (Vec3 0 0 0) 2 (ray_at from_centre t))"
    by (elim conjE)
  then have "quad_a from_centre \<noteq> 0
        \<and> sphere_hit (Vec3 0 0 0) 2 from_centre 0.001 (Finite 1) = None
      \<longrightarrow> \<not> (0.001 < (0.5::real) \<and> xless 0.5 (Finite 1)
            \<and> on_sphere (Vec3 0 0 0) 2 (ray_at from_centre 0.5))"
    by (rule spec)
  then have s2: "\<not> on_sphere (Vec3 0 0 0) 2 (ray_at from_centre 0.5)"
    using a h2 by simp
  have d3: "\<not> quad_disc (Vec3 0 0 0) 1 from_outside < 0" by (simp add: o)
  have i3: "in_interval 0.001 infinity (near_root (Vec3 0 0 0) 1 from_outside)"
    by (simp add: o in_interval_def infinity_def)
  from t3 have "\<not> quad_disc (Vec3 0 0 0) 1 from_outside < 0
      \<and> in_interval 0.001 infinity (near_root (Vec3 0 0 0) 1 from_outside)
      \<longrightarrow> sphere_hit (Vec3 0 0 0) 1 from_outside 0.001 infinity
          = near_root (Vec3 0 0 0) 1 from_outside"
    by (elim conjE)
  then have h3: "sphere_hit (Vec3 0 0 0) 1 from_outside 0.001 infinity = Some 4"
    using d3 i3 by (simp add: o)
  have d4: "quad_disc (Vec3 0 0 0) 1 passing_by < 0" by (simp add: passing_by_disc)
  from t4 have "quad_disc (Vec3 0 0 0) 1 passing_by < 0
      \<longrightarrow> sphere_hit (Vec3 0 0 0) 1 passing_by 0.001 infinity = None"
    by (elim conjE)
  then have h4: "sphere_hit (Vec3 0 0 0) 1 passing_by 0.001 infinity = None"
    using d4 by (rule mp)
  show ?thesis
    by (intro conjI d n1 f1 h1 s1 f2 h2 s2 d3 i3 h3 d4 h4) (simp_all add: c)
qed

text \<open>
  C9. The value \<open>-1\<close> of \<open>hit_sphere\<close> does not tell a miss from a hit. It is returned for
  every negative discriminant; with a discriminant that is not negative the smaller root
  is returned whatever its sign. So there is a ray that meets the sphere ahead of its
  origin (at a parameter \<open>t > 0\<close>) for which the value is negative, and one for which it
  is exactly \<open>-1\<close>.
\<close>

theorem hit_sphere_sentinel_ambiguous:
  "(\<forall>center radius r. quad_disc center radius r < 0 \<longrightarrow>
       hit_sphere center radius r = Some (- 1))
   \<and> (\<forall>center radius r. \<not> quad_disc center radius r < 0 \<longrightarrow>
       hit_sphere center radius r = near_root center radius r)
   \<and> (\<exists>center radius r t x. 0 < t \<and> on_sphere center radius (ray_at r t)
        \<and> hit_sphere center radius r = Some x \<and> x < 0 \<and> x \<noteq> - 1)
   \<and> (\<exists>center radius r t. 0 < t \<and> on_sphere center radius (ray_at r t)
        \<and> hit_sphere center radius r = Some (- 1))"
proof -
  have s: "sqrt 16 = 4"
    using real_sqrt_abs [of 4] by simp
  have "0 < (4::real) \<and> on_sphere (Vec3 0 0 0) 4 (ray_at (mk_ray (Vec3 0 0 0) (Vec3 0 0 1)) 4)
      \<and> hit_sphere (Vec3 0 0 0) 4 (mk_ray (Vec3 0 0 0) (Vec3 0 0 1)) = Some (- 4)
      \<and> (- 4 :: real) < 0 \<and> (- 4 :: real) \<noteq> - 1"
    by (simp add: on_sphere_def hit_sphere_def ray_defs vec_defs fdiv_def s)
  then have a: "\<exists>center radius r t x. 0 < t \<and> on_sphere center radius (ray_at r t)
        \<and> hit_sphere center radius r = Some x \<and> x < 0 \<and> x \<noteq> - 1"
    by blast
  have "0 < (1::real) \<and> on_sphere (Vec3 0 0 0) 1 (ray_at (mk_ray (Vec3 0 0 0) (Vec3 0 0 1)) 1)
      \<and> hit_sphere (Vec3 0 0 0) 1 (mk_ray (Vec3 0 0 0) (Vec3 0 0 1)) = Some (- 1)"
    by (simp add: on_sphere_def hit_sphere_def ray_defs vec_defs fdiv_def)
  then have b: "\<exists>center radius r t. 0 < t \<and> on_sphere center radius (ray_at r t)
        \<and> hit_sphere center radius r = Some (- 1)"
    by blast
  show ?thesis using a b by (simp add: hit_sphere_quad)
qed

theorem hit_sphere_sentinel_ambiguous_witness:
  "quad_disc (Vec3 0 0 0) 1 (mk_ray (Vec3 0 7 0) (Vec3 0 0 1)) = - 48
   \<and> hit_sphere (Vec3 0 0 0) 1 (mk_ray (Vec3 0 7 0) (Vec3 0 0 1)) = Some (- 1)
   \<and> quad_disc (Vec3 0 0 0) 1 (mk_ray (Vec3 0 0 0) (Vec3 0 0 1)) = 1
   \<and> near_root (Vec3 0 0 0) 1 (mk_ray (Vec3 0 0 0) (Vec3 0 0 1)) = Some (- 1)
   \<and> hit_sphere (Vec3 0 0 0) 1 (mk_ray (Vec3 0 0 0) (Vec3 0 0 1)) = Some (- 1)
   \<and> on_sphere (Vec3 0 0 0) 1 (ray_at (mk_ray (Vec3 0 0 0) (Vec3 0 0 1)) 1)"
proof -
  have d1: "quad_disc (Vec3 0 0 0) 1 (mk_ray (Vec3 0 7 0) (Vec3 0 0 1)) = - 48"
    by (simp add: quad_defs ray_defs vec_defs)
  have d2: "quad_disc (Vec3 0 0 0) 1 (mk_ray (Vec3 0 0 0) (Vec3 0 0 1)) = 1"
    by (simp add: quad_defs ray_defs vec_defs)
  have a: "quad_a (mk_ray (Vec3 0 0 0) (Vec3 0 0 1)) = 1"
    by (simp add: quad_a_def ray_defs vec_defs)
  have b: "quad_half_b (Vec3 0 0 0) (mk_ray (Vec3 0 0 0) (Vec3 0 0 1)) = 0"
    by (simp add: quad_half_b_def ray_defs vec_defs)
  have n: "near_root (Vec3 0 0 0) 1 (mk_ray (Vec3 0 0 0) (Vec3 0 0 1)) = Some (- 1)"
    by (simp add: near_root_def a b d2 fdiv_def)
  have o: "on_sphere (Vec3 0 0 0) 1 (ray_at (mk_ray (Vec3 0 0 0) (Vec3 0 0 1)) 1)"
    by (simp add: on_sphere_def ray_defs vec_defs)
  from hit_sphere_sentinel_ambiguous
  have m: "\<forall>center radius r. quad_disc center radius r < 0 \<longrightarrow>
       hit_sphere center radius r = Some (- 1)"
    and h: "\<forall>center radius r. \<not> quad_disc center radius r < 0 \<longrightarrow>
       hit_sphere center radius r = near_root center radius r"
    by blast+
  have "hit_sphere (Vec3 0 0 0) 1 (mk_ray (Vec3 0 7 0) (Vec3 0 0 1)) = Some (- 1)"
    using m d1 by simp
  moreover have "hit_sphere (Vec3 0 0 0) 1 (mk_ray (Vec3 0 0 0) (Vec3 0 0 1)) = Some (- 1)"
    using h d2 n by simp
  ultimately show ?thesis using d1 d2 n o by simp
qed

section \<open>The integrator\<close>

text \<open>
  C3. With \<open>depth \<le> 0\<close>, \<open>ray_color\<close> returns exactly black, whatever the ray and the
  scene, and leaves the generator untouched.
\<close>

theorem ray_color_depth_exhausted:
  "depth \<le> 0 \<Longrightarrow> ray_color scatter r world depth g = (Some (Vec3 0 0 0), g)"
  by (simp add: ray_color.simps [of scatter r world depth g])

theorem ray_color_depth_exhausted_witness:
  "(0::int) \<le> 0 \<and> ray_color bounce_up looking_down floor_below 0 0 = (Some (Vec3 0 0 0), 0)"
  using ray_color_depth_exhausted [of 0 bounce_up looking_down floor_below 0] by simp

text \<open>
  C4. With \<open>depth > 0\<close> and a nearest hit: when the material of the hit scatters, giving an
  attenuation and a scattered ray, \<open>ray_color\<close> returns the componentwise product of the
  attenuation and \<open>ray_color\<close> of the scattered ray at \<open>depth - 1\<close>; when the material
  absorbs the ray, it returns black.
\<close>

theorem ray_color_hit_scatter:
  assumes "0 < depth" and "world r 0.001 infinity = Some rec"
  shows "(\<forall>attenuation scattered g'.
            scatter (rec_mat_ptr rec) r rec g = (Some (attenuation, scattered), g') \<longrightarrow>
            ray_color scatter r world depth g =
              (map_option (vmul attenuation)
                 (fst (ray_color scatter scattered world (depth - 1) g')),
               snd (ray_color scatter scattered world (depth - 1) g')))
       \<and> (\<forall>g'. scatter (rec_mat_ptr rec) r rec g = (None, g') \<longrightarrow>
            ray_color scatter r world depth g = (Some (Vec3 0 0 0), g'))"
  using assms by (simp add: ray_color.simps [of scatter r world depth g] split: prod.splits)

theorem ray_color_hit_scatter_witness:
  "(0::int) < 2
   \<and> floor_below looking_down 0.001 infinity
       = Some (Hit_Record (Vec3 0 0 0) (Vec3 0 1 0) () 1 True)
   \<and> bounce_up () looking_down (Hit_Record (Vec3 0 0 0) (Vec3 0 1 0) () 1 True) 0
       = (Some (Vec3 0.5 0.5 0.5, looking_up), 1)
   \<and> ray_color bounce_up looking_up floor_below 1 1 = (Some (Vec3 0.5 0.7 1), 1)
   \<and> ray_color bounce_up looking_down floor_below 2 0 = (Some (Vec3 0.25 0.35 0.5), 1)
   \<and> absorber () looking_down (Hit_Record (Vec3 0 0 0) (Vec3 0 1 0) () 1 True) 0 = (None, 1)
   \<and> ray_color absorber looking_down floor_below 2 0 = (Some (Vec3 0 0 0), 1)"
proof -
  have d: "(0::int) < 2" by simp
  have h: "floor_below looking_down 0.001 infinity
       = Some (Hit_Record (Vec3 0 0 0) (Vec3 0 1 0) () 1 True)"
    by (simp add: floor_down infinity_def)
  have s: "bounce_up () looking_down (Hit_Record (Vec3 0 0 0) (Vec3 0 1 0) () 1 True) 0
       = (Some (Vec3 0.5 0.5 0.5, looking_up), 1)"
    by (simp add: bounce_down)
  have a: "absorber () looking_down (Hit_Record (Vec3 0 0 0) (Vec3 0 1 0) () 1 True) 0
       = (None, 1)"
    by (simp add: absorber_def)
  have k: "ray_color bounce_up looking_up floor_below 1 1 = (Some (Vec3 0.5 0.7 1), 1)"
    by (simp add: sky_color)
  have "ray_color bounce_up looking_down floor_below 2 0 = (Some (Vec3 0.25 0.35 0.5), 1)"
    using ray_color_hit_scatter [where depth = 2 and world = floor_below and r = looking_down
        and scatter = bounce_up and g = 0, OF d h] s k by (simp add: vec_defs)
  moreover have "ray_color absorber looking_down floor_below 2 0 = (Some (Vec3 0 0 0), 1)"
    using ray_color_hit_scatter [where depth = 2 and world = floor_below and r = looking_down
        and scatter = absorber and g = 0, OF d h] a by simp
  ultimately show ?thesis using h s a k by simp
qed

text \<open>
  C5. With \<open>depth > 0\<close> and no hit, \<open>ray_color\<close> returns
  \<open>(1 - t) (1,1,1) + t (0.5,0.7,1.0)\<close> with \<open>t = 0.5 (unit_direction.y + 1)\<close>, where
  \<open>unit_direction\<close> is the ray's direction divided by its length.
\<close>

theorem ray_color_background:
  assumes "0 < depth" and "world r 0.001 infinity = None"
  shows "ray_color scatter r world depth g =
     (map_option
        (\<lambda>unit_direction.
           vadd (smul (1 - 0.5 * (vy unit_direction + 1)) (Vec3 1 1 1))
                (smul (0.5 * (vy unit_direction + 1)) (Vec3 0.5 0.7 1)))
        (unit_vector (direction r)), g)"
  using assms
  by (simp add: ray_color.simps [of scatter r world depth g] Let_def split: option.splits)

theorem ray_color_background_witness:
  "(0::int) < 1
   \<and> floor_below looking_up 0.001 infinity = None
   \<and> unit_vector (direction looking_up) = Some (Vec3 0 1 0)
   \<and> ray_color absorber looking_up floor_below 1 0 = (Some (Vec3 0.5 0.7 1), 0)"
proof -
  have d: "(0::int) < 1" by simp
  have h: "floor_below looking_up 0.001 infinity = None"
    by (simp add: floor_up)
  show ?thesis
    using ray_color_background [where depth = 1 and world = floor_below and r = looking_up
        and scatter = absorber and g = 0, OF d h] h
    by (simp add: unit_up vec_defs)
qed

text \<open>
  C6. Every query \<open>ray_color\<close> puts to the scene has the interval \<open>(0.001, +\<infinity>)\<close>, at
  every depth of the recursion; with \<open>depth > 0\<close> the first query is for the ray itself;
  and the colour depends on the scene through the answers to these queries only.
\<close>

theorem ray_color_query_interval:
  "(\<forall>q \<in> set (ray_color_queries scatter r world depth g).
       fst (snd q) = 0.001 \<and> snd (snd q) = PosInf)
   \<and> (0 < depth \<longrightarrow> hd (ray_color_queries scatter r world depth g) = (r, 0.001, PosInf))
   \<and> ((\<forall>q \<in> set (ray_color_queries scatter r world depth g).
         world' (fst q) (fst (snd q)) (snd (snd q)) = world (fst q) (fst (snd q)) (snd (snd q)))
       \<longrightarrow> ray_color scatter r world' depth g = ray_color scatter r world depth g)"
proof -
  have a: "\<forall>q \<in> set (ray_color_queries scatter r world depth g).
       fst (snd q) = 0.001 \<and> snd (snd q) = PosInf"
    using queries_interval [of _ scatter r world depth g] by (simp add: infinity_def)
  have b: "0 < depth \<longrightarrow> hd (ray_color_queries scatter r world depth g) = (r, 0.001, PosInf)"
    by (simp add: ray_color_queries.simps [of scatter r world depth g] infinity_def)
  have c: "(\<forall>q \<in> set (ray_color_queries scatter r world depth g).
         world' (fst q) (fst (snd q)) (snd (snd q)) = world (fst q) (fst (snd q)) (snd (snd q)))
       \<longrightarrow> ray_color scatter r world' depth g = ray_color scatter r world depth g"
    using queries_determine_color [of scatter r world depth g world'] by blast
  from a b c show ?thesis by blast
qed

theorem ray_color_query_interval_witness:
  "(looking_up, 0.001, PosInf) \<in> set (ray_color_queries bounce_up looking_down floor_below 2 0)
   \<and> fst (snd (looking_up, 0.001 :: real, PosInf)) = 0.001
   \<and> snd (snd (looking_up, 0.001 :: real, PosInf)) = PosInf
   \<and> (0::int) < 2
   \<and> hd (ray_color_queries bounce_up looking_down floor_below 2 0)
       = (looking_down, 0.001, PosInf)
   \<and> ray_color bounce_up looking_down (\<lambda>r t_min t_max. floor_below r 0.001 PosInf) 2 0
       = ray_color bounce_up looking_down floor_below 2 0"
proof -
  have m: "(looking_up, 0.001, PosInf)
      \<in> set (ray_color_queries bounce_up looking_down floor_below 2 0)"
    by (simp add: bounce_queries)
  have agree: "\<forall>q \<in> set (ray_color_queries bounce_up looking_down floor_below 2 0).
      (\<lambda>r t_min t_max. floor_below r 0.001 PosInf) (fst q) (fst (snd q)) (snd (snd q))
        = floor_below (fst q) (fst (snd q)) (snd (snd q))"
    by (simp add: bounce_queries)
  note t = ray_color_query_interval [where scatter = bounce_up and r = looking_down
      and world = floor_below and depth = 2 and g = 0
      and world' = "\<lambda>r t_min t_max. floor_below r 0.001 PosInf"]
  from t have "\<forall>q \<in> set (ray_color_queries bounce_up looking_down floor_below 2 0).
      fst (snd q) = 0.001 \<and> snd (snd q) = PosInf"
    by (rule conjunct1)
  then have a: "fst (snd (looking_up, 0.001 :: real, PosInf)) = 0.001
      \<and> snd (snd (looking_up, 0.001 :: real, PosInf)) = PosInf"
    using m by (rule bspec)
  from t have b: "hd (ray_color_queries bounce_up looking_down floor_below 2 0)
       = (looking_down, 0.001, PosInf)"
    by simp
  from t have "(\<forall>q \<in> set (ray_color_queries bounce_up looking_down floor_below 2 0).
      (\<lambda>r t_min t_max. floor_below r 0.001 PosInf) (fst q) (fst (snd q)) (snd (snd q))
        = floor_below (fst q) (fst (snd q)) (snd (snd q)))
     \<longrightarrow> ray_color bounce_up looking_down (\<lambda>r t_min t_max. floor_below r 0.001 PosInf) 2 0
       = ray_color bounce_up looking_down floor_below 2 0"
    by (rule conjunct2 [THEN conjunct2])
  then have c: "ray_color bounce_up looking_down (\<lambda>r t_min t_max. floor_below r 0.001 PosInf) 2 0
       = ray_color bounce_up looking_down floor_below 2 0"
    using agree by (rule mp)
  from m a b c show ?thesis by simp
qed

text \<open>
  C10. With \<open>depth > 0\<close>, no hit and a direction that is not zero, the colour \<open>ray_color\<close>
  returns has blue component exactly 1, red component in \<open>[0.5, 1]\<close> and green component in
  \<open>[0.7, 1]\<close>; so it is never black, the colour returned when the depth is used up or the
  ray is absorbed.
\<close>

theorem ray_color_background_bounds:
  assumes "0 < depth" and "world r 0.001 infinity = None" and "direction r \<noteq> Vec3 0 0 0"
  shows "\<exists>c. ray_color scatter r world depth g = (Some c, g)
           \<and> vz c = 1 \<and> 0.5 \<le> vx c \<and> vx c \<le> 1 \<and> 0.7 \<le> vy c \<and> vy c \<le> 1
           \<and> c \<noteq> Vec3 0 0 0"
proof -
  from assms(3) obtain u where u: "unit_vector (direction r) = Some u"
    by (auto simp: unit_vector_def vlength_zero_iff)
  define t where "t = 0.5 * (vy u + 1)"
  have t: "0 \<le> t \<and> t \<le> 1"
    using unit_vector_vy [OF u] by (simp add: t_def)
  define c where "c = vadd (smul (1 - t) (Vec3 1 1 1)) (smul t (Vec3 0.5 0.7 1))"
  have rc: "ray_color scatter r world depth g = (Some c, g)"
    using assms(1,2) u
    by (simp add: ray_color.simps [of scatter r world depth g] Let_def c_def t_def)
  have z: "vz c = 1" by (simp add: c_def vadd_def smul_def)
  have x: "0.5 \<le> vx c \<and> vx c \<le> 1" using t by (simp add: c_def vadd_def smul_def)
  have y: "0.7 \<le> vy c \<and> vy c \<le> 1" using t by (simp add: c_def vadd_def smul_def)
  have "c \<noteq> Vec3 0 0 0" using z by auto
  with rc x y z show ?thesis by blast
qed

theorem ray_color_background_bounds_witness:
  "(0::int) < 1
   \<and> floor_below looking_ahead 0.001 infinity = None
   \<and> direction looking_ahead \<noteq> Vec3 0 0 0
   \<and> (\<exists>c. ray_color absorber looking_ahead floor_below 1 0 = (Some c, 0)
          \<and> vz c = 1 \<and> 0.5 \<le> vx c \<and> vx c \<le> 1 \<and> 0.7 \<le> vy c \<and> vy c \<le> 1
          \<and> c \<noteq> Vec3 0 0 0)"
proof -
  have d: "(0::int) < 1" by simp
  have h: "floor_below looking_ahead 0.001 infinity = None"
    by (simp add: floor_below_def looking_ahead_def ray_defs)
  have n: "direction looking_ahead \<noteq> Vec3 0 0 0"
    by (simp add: looking_ahead_def ray_defs)
  show ?thesis
    using ray_color_background_bounds [where depth = 1 and world = floor_below
        and r = looking_ahead and scatter = absorber and g = 0, OF d h n] h n
    by simp
qed

section \<open>The output of main\<close>

text \<open>
  C8. \<open>main\<close> writes to the standard output first the header: the tag \<open>P3\<close>, the width 800
  and the height 450, and the largest channel value 255; then the pixels, row by row with
  \<open>j\<close> going from \<open>image_height - 1 = 449\<close> down to 0, and in each row with \<open>i\<close> going from 0
  up to \<open>image_width - 1 = 799\<close>.
\<close>

theorem main_output_order:
  "image_width = 800 \<and> image_height = 450
   \<and> cout (main e g) =
       ''P3'' @ [CHR 0x0A] @ ''800 450'' @ [CHR 0x0A] @ ''255'' @ [CHR 0x0A]
       @ pixel_stream e scan_order g
   \<and> scan_order = concat (map (\<lambda>j. map (\<lambda>i. (j, i)) [0..799]) (rev [0..449]))
   \<and> hd scan_order = (449, 0) \<and> last scan_order = (0, 799)
   \<and> length scan_order = 360000"
proof -
  have w: "image_width - 1 = 799" by (simp add: image_width_def)
  have h: "image_height - 1 = 449" by (simp add: image_height_450)
  have iw: "image_width = 800" by (simp add: image_width_def)
  have co: "cout (main e g) =
       ''P3'' @ [CHR 0x0A] @ ''800 450'' @ [CHR 0x0A] @ ''255'' @ [CHR 0x0A]
       @ pixel_stream e scan_order g"
    using fold_scanline_body [of e "\<lparr>cout = ''P3'' @ [CHR 0x0A] @ ''800 450'' @ [CHR 0x0A]
        @ ''255'' @ [CHR 0x0A], cerr = [], gen = g\<rparr>" "rev [0..449]"]
    by (simp add: main_def Let_def scanline_loop_fold h w image_height_450 show_450
        image_width_def show_800 scan_order_def del: upto_rec_numeral)
  show ?thesis
    by (intro conjI iw image_height_450 co scan_order_explicit scan_order_hd scan_order_last
        scan_order_length)
qed

end
